theory Spec2Isabelle
  imports Complex_Main
begin

section \<open>The tfe_data_retention_policy resource\<close>

text \<open>
  A shallow embedding of \<^verbatim>\<open>internal/provider/resource_tfe_data_retention_policy.go\<close>.
  Each lifecycle callback of the resource (Create, Read, Update, Delete, ImportState)
  is a function from the request and the incoming response to a \<open>run\<close>: the response as
  the callback leaves it, the remote calls it issued in order, and whether it panicked.
  The remote client and the model-mapping helpers, which live outside the file, are
  fields of the environment record \<open>env\<close>.
\<close>

subsection \<open>Framework values\<close>

text \<open>\<^verbatim>\<open>types.String\<close>: null, unknown or a known Go string.\<close>

datatype tfstring = StringNull | StringUnknown | StringValue string

fun String_IsNull :: "tfstring \<Rightarrow> bool" where
  "String_IsNull StringNull = True"
| "String_IsNull StringUnknown = False"
| "String_IsNull (StringValue s) = False"

fun String_IsUnknown :: "tfstring \<Rightarrow> bool" where
  "String_IsUnknown StringNull = False"
| "String_IsUnknown StringUnknown = True"
| "String_IsUnknown (StringValue s) = False"

text \<open>\<^verbatim>\<open>ValueString\<close> returns the known string, and the empty string for null and unknown.\<close>

fun ValueString :: "tfstring \<Rightarrow> string" where
  "ValueString StringNull = []"
| "ValueString StringUnknown = []"
| "ValueString (StringValue s) = s"

text \<open>
  \<^verbatim>\<open>*big.Float\<close>: a finite value or an infinity with its sign. The finite values of a
  \<^verbatim>\<open>big.Float\<close> are rationals (a mantissa times a power of two), so the model takes any
  rational.
\<close>

datatype bigfloat = BigFinite rat | BigInf bool

text \<open>\<^verbatim>\<open>types.Number\<close>; \<^verbatim>\<open>ValueBigFloat\<close> hands out the stored pointer, nil unless known.\<close>

datatype tfnumber = NumberNull | NumberUnknown | NumberValue bigfloat

fun ValueBigFloat :: "tfnumber \<Rightarrow> bigfloat option" where
  "ValueBigFloat NumberNull = None"
| "ValueBigFloat NumberUnknown = None"
| "ValueBigFloat (NumberValue f) = Some f"

definition MinInt64 :: int where
  "MinInt64 = - (2 ^ 63)"

definition MaxInt64 :: int where
  "MaxInt64 = 2 ^ 63 - 1"

text \<open>Rounding a rational toward zero.\<close>

definition trunc :: "rat \<Rightarrow> int" where
  "trunc q = (if q < 0 then \<lceil>q\<rceil> else \<lfloor>q\<rfloor>)"

text \<open>
  \<^verbatim>\<open>(*big.Float).Int64\<close>: the value truncated toward zero, \<^verbatim>\<open>math.MinInt64\<close> below the
  range of an int64 and \<^verbatim>\<open>math.MaxInt64\<close> above it. The accuracy it also returns is
  dropped by the caller (\<^verbatim>\<open>deleteOlderThanDays, _ := ...\<close>).
\<close>

fun Int64 :: "bigfloat \<Rightarrow> int" where
  "Int64 (BigFinite q) =
     (if trunc q < MinInt64 then MinInt64
      else if MaxInt64 < trunc q then MaxInt64
      else trunc q)"
| "Int64 (BigInf neg) = (if neg then MinInt64 else MaxInt64)"

text \<open>
  The conversion \<^verbatim>\<open>int(x)\<close> of an int64: the low \<open>w\<close> bits read as a signed number, where
  \<open>w\<close> is the size of Go's \<^verbatim>\<open>int\<close> on the platform (32 or 64).
\<close>

definition int_of_int64 :: "nat \<Rightarrow> int \<Rightarrow> int" where
  "int_of_int64 w x = signed_take_bit (w - 1) x"

text \<open>An object value of the framework (\<^verbatim>\<open>types.Object\<close>) with its attributes decoded.\<close>

datatype 'a tfobject = ObjectNull | ObjectUnknown | ObjectValue 'a

fun Object_IsNull :: "'a tfobject \<Rightarrow> bool" where
  "Object_IsNull ObjectNull = True"
| "Object_IsNull ObjectUnknown = False"
| "Object_IsNull (ObjectValue v) = False"

fun Object_IsUnknown :: "'a tfobject \<Rightarrow> bool" where
  "Object_IsUnknown ObjectNull = False"
| "Object_IsUnknown ObjectUnknown = True"
| "Object_IsUnknown (ObjectValue v) = False"

subsection \<open>Diagnostics\<close>

datatype Severity = SeverityError | SeverityWarning

datatype diagnostic =
    ErrorDiagnostic string string
  | WarningDiagnostic string string
  | AttributeErrorDiagnostic string string string

fun severity :: "diagnostic \<Rightarrow> Severity" where
  "severity (ErrorDiagnostic summary detail) = SeverityError"
| "severity (WarningDiagnostic summary detail) = SeverityWarning"
| "severity (AttributeErrorDiagnostic p summary detail) = SeverityError"

definition HasError :: "diagnostic list \<Rightarrow> bool" where
  "HasError ds = list_ex (\<lambda>d. severity d = SeverityError) ds"

text \<open>\<^verbatim>\<open>Diagnostics.Append\<close> skips a diagnostic the list already contains.\<close>

fun Append :: "diagnostic list \<Rightarrow> diagnostic list \<Rightarrow> diagnostic list" where
  "Append ds [] = ds"
| "Append ds (d # rest) = Append (if d \<in> set ds then ds else ds @ [d]) rest"

definition AddError :: "diagnostic list \<Rightarrow> string \<Rightarrow> string \<Rightarrow> diagnostic list" where
  "AddError ds summary detail = Append ds [ErrorDiagnostic summary detail]"

subsection \<open>The resource's model and state\<close>

text \<open>The nested block \<^verbatim>\<open>delete_older_than\<close> of the schema: one required number, \<^verbatim>\<open>days\<close>.\<close>

record modelTFEDeleteOlderThan =
  Days :: tfnumber

text \<open>
  The attributes and blocks the schema declares: \<^verbatim>\<open>id\<close>, \<^verbatim>\<open>organization\<close>,
  \<^verbatim>\<open>workspace_id\<close>, \<^verbatim>\<open>delete_older_than\<close> and \<^verbatim>\<open>dont_delete\<close> (a block without
  attributes).
\<close>

record modelTFEDataRetentionPolicy =
  ID :: tfstring
  Organization :: tfstring
  WorkspaceId :: tfstring
  DeleteOlderThan :: "modelTFEDeleteOlderThan tfobject"
  DontDelete :: "unit tfobject"

text \<open>
  \<^verbatim>\<open>plan.DeleteOlderThan.As(ctx, &deleteOlderThan, basetypes.ObjectAsOptions{})\<close> with a
  pointer target: a null object leaves the pointer nil, an unknown object is a
  conversion error (the options do not ask for unknown as empty), a known object is
  decoded.
\<close>

fun As :: "modelTFEDeleteOlderThan tfobject \<Rightarrow> diagnostic list \<times> modelTFEDeleteOlderThan option" where
  "As ObjectNull = ([], None)"
| "As ObjectUnknown =
     ([ErrorDiagnostic ''Value Conversion Error''
         ''Received unknown value, however the target type cannot handle unknown values.''], None)"
| "As (ObjectValue v) = ([], Some v)"

text \<open>
  The stored state: \<open>None\<close> is the null state the framework hands to Create and
  ImportState, \<open>Some m\<close> a state with the attributes of \<open>m\<close>.
\<close>

type_synonym tfstate = "modelTFEDataRetentionPolicy option"

definition emptyModel :: modelTFEDataRetentionPolicy where
  "emptyModel = \<lparr>ID = StringNull, Organization = StringNull, WorkspaceId = StringNull,
                 DeleteOlderThan = ObjectNull, DontDelete = ObjectNull\<rparr>"

text \<open>
  The validators of the schema. Each of the two blocks carries
  \<^verbatim>\<open>objectvalidator.ExactlyOneOf\<close> naming the other block: validation is put off while
  one of the two is unknown, and otherwise fails unless exactly one of them is
  configured. The wording of the library's messages is abridged.
\<close>

definition ExactlyOneOf :: "string \<Rightarrow> 'a tfobject \<Rightarrow> 'b tfobject \<Rightarrow> diagnostic list" where
  "ExactlyOneOf p this other =
     (if Object_IsUnknown this \<or> Object_IsUnknown other then []
      else
        (let count = (if Object_IsNull this then 0 else 1) + (if Object_IsNull other then 0 else (1::nat)) in
         if count = 0
           then [AttributeErrorDiagnostic p ''Invalid Attribute Combination''
                   ''No attribute specified when one (and only one) is required'']
         else if count > 1
           then [AttributeErrorDiagnostic p ''Invalid Attribute Combination''
                   ''2 attributes specified when one (and only one) is required'']
         else []))"

definition Schema_validators :: "modelTFEDataRetentionPolicy \<Rightarrow> diagnostic list" where
  "Schema_validators config =
     Append (ExactlyOneOf ''delete_older_than'' (DeleteOlderThan config) (DontDelete config))
            (ExactlyOneOf ''dont_delete'' (DontDelete config) (DeleteOlderThan config))"

text \<open>
  \<^verbatim>\<open>State.SetAttribute(ctx, path.Root(name), value)\<close> with a Go string: a null state first
  becomes an object whose attributes are all null; a name that is no string attribute
  of the schema is an error and leaves the state as it is.
\<close>

definition SetAttribute :: "tfstate \<Rightarrow> string \<Rightarrow> string \<Rightarrow> diagnostic list \<times> tfstate" where
  "SetAttribute st name v =
     (let m = (case st of None \<Rightarrow> emptyModel | Some m \<Rightarrow> m) in
      if name = ''id'' then ([], Some (m\<lparr>ID := StringValue v\<rparr>))
      else if name = ''organization'' then ([], Some (m\<lparr>Organization := StringValue v\<rparr>))
      else if name = ''workspace_id'' then ([], Some (m\<lparr>WorkspaceId := StringValue v\<rparr>))
      else ([AttributeErrorDiagnostic name ''Value Conversion Error''
               ''An unexpected error was encountered trying to set the attribute.''], st))"

text \<open>The response of every callback: the state to persist and the diagnostics.\<close>

record response =
  State :: tfstate
  Diagnostics :: "diagnostic list"

text \<open>
  The requests. \<open>Plan\<close> and \<open>PriorState\<close> are the values \<^verbatim>\<open>req.Plan.Get\<close> and
  \<^verbatim>\<open>req.State.Get\<close> decode into the model, \<open>PlanGetDiagnostics\<close> and
  \<open>StateGetDiagnostics\<close> the diagnostics these two calls return.
\<close>

record CreateRequest =
  Plan :: modelTFEDataRetentionPolicy
  PlanGetDiagnostics :: "diagnostic list"

record ReadRequest =
  PriorState :: modelTFEDataRetentionPolicy
  StateGetDiagnostics :: "diagnostic list"

record ImportStateRequest =
  ImportID :: string

subsection \<open>The remote client\<close>

record DataRetentionPolicyDeleteOlderSetOptions =
  DeleteOlderThanNDays :: int

datatype DataRetentionPolicyDontDeleteSetOptions = DataRetentionPolicyDontDeleteSetOptions

record DataRetentionPolicyDeleteOlder =
  DeleteOlder_ID :: string
  DeleteOlder_DeleteOlderThanNDays :: int

record DataRetentionPolicyDontDelete =
  DontDelete_ID :: string

record DataRetentionPolicyChoice =
  Choice_DeleteOlder :: "DataRetentionPolicyDeleteOlder option"
  Choice_DontDelete :: "DataRetentionPolicyDontDelete option"

text \<open>The remote calls of the file, each with the address and the options it is given.\<close>

datatype remote_call =
    Organizations_SetDataRetentionPolicyDeleteOlder string DataRetentionPolicyDeleteOlderSetOptions
  | Workspaces_SetDataRetentionPolicyDeleteOlder string DataRetentionPolicyDeleteOlderSetOptions
  | Organizations_SetDataRetentionPolicyDontDelete string DataRetentionPolicyDontDeleteSetOptions
  | Workspaces_SetDataRetentionPolicyDontDelete string DataRetentionPolicyDontDeleteSetOptions
  | Organizations_ReadDataRetentionPolicyChoice string
  | Workspaces_ReadDataRetentionPolicyChoice string

text \<open>
  The environment of the resource: the configured client (\<^verbatim>\<open>r.config\<close>) with its default
  organization and its six remote operations, each returning the error message
  (\<open>Inl\<close>) or the payload (\<open>Inr\<close>); the three mapping helpers that are defined elsewhere
  in the provider; and the size of \<^verbatim>\<open>int\<close>.
\<close>

record env =
  config_Organization :: string
  OrgSetDeleteOlder :: "string \<Rightarrow> DataRetentionPolicyDeleteOlderSetOptions \<Rightarrow> string + DataRetentionPolicyDeleteOlder"
  WsSetDeleteOlder :: "string \<Rightarrow> DataRetentionPolicyDeleteOlderSetOptions \<Rightarrow> string + DataRetentionPolicyDeleteOlder"
  OrgSetDontDelete :: "string \<Rightarrow> DataRetentionPolicyDontDeleteSetOptions \<Rightarrow> string + DataRetentionPolicyDontDelete"
  WsSetDontDelete :: "string \<Rightarrow> DataRetentionPolicyDontDeleteSetOptions \<Rightarrow> string + DataRetentionPolicyDontDelete"
  OrgReadChoice :: "string \<Rightarrow> string + DataRetentionPolicyChoice"
  WsReadChoice :: "string \<Rightarrow> string + DataRetentionPolicyChoice"
  modelFromTFEDataRetentionPolicyDeleteOlder ::
    "modelTFEDataRetentionPolicy \<Rightarrow> DataRetentionPolicyDeleteOlder \<Rightarrow> modelTFEDataRetentionPolicy \<times> diagnostic list"
  modelFromTFEDataRetentionPolicyDontDelete ::
    "modelTFEDataRetentionPolicy \<Rightarrow> DataRetentionPolicyDontDelete \<Rightarrow> modelTFEDataRetentionPolicy"
  modelFromTFEDataRetentionPolicyChoice ::
    "modelTFEDataRetentionPolicy \<Rightarrow> DataRetentionPolicyChoice \<Rightarrow> modelTFEDataRetentionPolicy \<times> diagnostic list"
  IntSize :: nat

text \<open>What a callback did.\<close>

record run =
  response :: response
  calls :: "remote_call list"
  panicked :: bool

definition returns :: "response \<Rightarrow> remote_call list \<Rightarrow> run" where
  "returns resp cs = \<lparr>response = resp, calls = cs, panicked = False\<rparr>"

definition panics :: "response \<Rightarrow> remote_call list \<Rightarrow> run" where
  "panics resp cs = \<lparr>response = resp, calls = cs, panicked = True\<rparr>"

text \<open>The error the client returned for a call, if it returned one.\<close>

fun call_error :: "env \<Rightarrow> remote_call \<Rightarrow> string option" where
  "call_error e (Organizations_SetDataRetentionPolicyDeleteOlder a opts) =
     (case OrgSetDeleteOlder e a opts of Inl err \<Rightarrow> Some err | Inr p \<Rightarrow> None)"
| "call_error e (Workspaces_SetDataRetentionPolicyDeleteOlder a opts) =
     (case WsSetDeleteOlder e a opts of Inl err \<Rightarrow> Some err | Inr p \<Rightarrow> None)"
| "call_error e (Organizations_SetDataRetentionPolicyDontDelete a opts) =
     (case OrgSetDontDelete e a opts of Inl err \<Rightarrow> Some err | Inr p \<Rightarrow> None)"
| "call_error e (Workspaces_SetDataRetentionPolicyDontDelete a opts) =
     (case WsSetDontDelete e a opts of Inl err \<Rightarrow> Some err | Inr p \<Rightarrow> None)"
| "call_error e (Organizations_ReadDataRetentionPolicyChoice a) =
     (case OrgReadChoice e a of Inl err \<Rightarrow> Some err | Inr p \<Rightarrow> None)"
| "call_error e (Workspaces_ReadDataRetentionPolicyChoice a) =
     (case WsReadChoice e a of Inl err \<Rightarrow> Some err | Inr p \<Rightarrow> None)"



text \<open>Which of the two "set" operations a call is, if any.\<close>

fun is_set_delete_older :: "remote_call \<Rightarrow> bool" where
  "is_set_delete_older (Organizations_SetDataRetentionPolicyDeleteOlder a opts) = True"
| "is_set_delete_older (Workspaces_SetDataRetentionPolicyDeleteOlder a opts) = True"
| "is_set_delete_older c = False"

fun is_set_dont_delete :: "remote_call \<Rightarrow> bool" where
  "is_set_dont_delete (Organizations_SetDataRetentionPolicyDontDelete a opts) = True"
| "is_set_dont_delete (Workspaces_SetDataRetentionPolicyDontDelete a opts) = True"
| "is_set_dont_delete c = False"

text \<open>The day count a "set delete-older-than" call carries in its options.\<close>

fun call_days :: "remote_call \<Rightarrow> int option" where
  "call_days (Organizations_SetDataRetentionPolicyDeleteOlder a opts) = Some (DeleteOlderThanNDays opts)"
| "call_days (Workspaces_SetDataRetentionPolicyDeleteOlder a opts) = Some (DeleteOlderThanNDays opts)"
| "call_days c = None"

subsection \<open>Resolving the organization\<close>

text \<open>
  Modelled from the spec: \<^verbatim>\<open>ConfiguredClient.dataOrDefaultOrganization\<close> is defined
  outside the file. The spec's \<^verbatim>\<open>resolveScope\<close>: without a workspace the scope is
  the declared organization or else the provider's default organization, and the
  resolution fails with a configuration error if neither is available. A declared
  organization is available when it is a known string, the provider default when it is
  not the empty string.
\<close>

definition ConfigurationError :: diagnostic where
  "ConfigurationError =
     AttributeErrorDiagnostic ''organization''
       ''No organization was specified on the resource or provider'' []"

definition dataOrDefaultOrganization :: "env \<Rightarrow> modelTFEDataRetentionPolicy \<Rightarrow> diagnostic list \<times> string" where
  "dataOrDefaultOrganization e data =
     (case Organization data of
        StringValue s \<Rightarrow> ([], s)
      | _ \<Rightarrow> (if config_Organization e = [] then ([ConfigurationError], [])
              else ([], config_Organization e)))"

subsection \<open>Create\<close>

definition createDeleteOlderThanRetentionPolicy :: "env \<Rightarrow> modelTFEDataRetentionPolicy \<Rightarrow> response \<Rightarrow> run" where
  "createDeleteOlderThanRetentionPolicy e plan resp =
     (case As (DeleteOlderThan plan) of (diags, deleteOlderThan) \<Rightarrow>
      if HasError diags then returns (resp\<lparr>Diagnostics := Append (Diagnostics resp) diags\<rparr>) []
      else
        (case deleteOlderThan of
           None \<Rightarrow> panics resp []
         | Some dot \<Rightarrow>
            (case ValueBigFloat (Days dot) of
               None \<Rightarrow> panics resp []
             | Some f \<Rightarrow>
                (let deleteOlderThanDays = Int64 f;
                     options = \<lparr>DeleteOlderThanNDays = int_of_int64 (IntSize e) deleteOlderThanDays\<rparr>;
                     (call, res) =
                       (if String_IsNull (WorkspaceId plan)
                        then (Organizations_SetDataRetentionPolicyDeleteOlder (ValueString (Organization plan)) options,
                              OrgSetDeleteOlder e (ValueString (Organization plan)) options)
                        else (Workspaces_SetDataRetentionPolicyDeleteOlder (ValueString (WorkspaceId plan)) options,
                              WsSetDeleteOlder e (ValueString (WorkspaceId plan)) options))
                 in case res of
                      Inl err \<Rightarrow>
                        returns (resp\<lparr>Diagnostics :=
                          AddError (Diagnostics resp) ''Unable to create data retention policy'' err\<rparr>) [call]
                    | Inr dataRetentionPolicy \<Rightarrow>
                        (case modelFromTFEDataRetentionPolicyDeleteOlder e plan dataRetentionPolicy of
                           (result, diags2) \<Rightarrow>
                             if HasError diags2
                             then returns (resp\<lparr>Diagnostics := Append (Diagnostics resp) diags2\<rparr>) [call]
                             else returns (resp\<lparr>State := Some result\<rparr>) [call])))))"

definition createDontDeleteRetentionPolicy :: "env \<Rightarrow> modelTFEDataRetentionPolicy \<Rightarrow> response \<Rightarrow> run" where
  "createDontDeleteRetentionPolicy e plan resp =
     (case As (DeleteOlderThan plan) of (diags, deleteOlderThan) \<Rightarrow>
      if HasError diags then returns (resp\<lparr>Diagnostics := Append (Diagnostics resp) diags\<rparr>) []
      else
        (let options = DataRetentionPolicyDontDeleteSetOptions;
             (call, res) =
               (if String_IsNull (WorkspaceId plan)
                then (Organizations_SetDataRetentionPolicyDontDelete (ValueString (Organization plan)) options,
                      OrgSetDontDelete e (ValueString (Organization plan)) options)
                else (Workspaces_SetDataRetentionPolicyDontDelete (ValueString (WorkspaceId plan)) options,
                      WsSetDontDelete e (ValueString (WorkspaceId plan)) options))
         in case res of
              Inl err \<Rightarrow>
                returns (resp\<lparr>Diagnostics :=
                  AddError (Diagnostics resp) ''Unable to create data retention policy'' err\<rparr>) [call]
            | Inr dataRetentionPolicy \<Rightarrow>
                returns (resp\<lparr>State :=
                  Some (modelFromTFEDataRetentionPolicyDontDelete e plan dataRetentionPolicy)\<rparr>) [call]))"

text \<open>
  The plan after lines 120 to 124 of Create and the diagnostics they add: without a
  workspace id the organization is resolved and written into the plan model, also
  when the resolution failed (the organization is then the empty string).
\<close>

definition resolveOrganization ::
  "env \<Rightarrow> modelTFEDataRetentionPolicy \<Rightarrow> diagnostic list \<Rightarrow> modelTFEDataRetentionPolicy \<times> diagnostic list" where
  "resolveOrganization e plan ds =
     (if String_IsNull (WorkspaceId plan)
      then (case dataOrDefaultOrganization e plan of
              (diags, organization) \<Rightarrow>
                (plan\<lparr>Organization := StringValue organization\<rparr>, Append ds diags))
      else (plan, ds))"

definition Create :: "env \<Rightarrow> CreateRequest \<Rightarrow> response \<Rightarrow> run" where
  "Create e req resp =
     (let resp1 = resp\<lparr>Diagnostics := Append (Diagnostics resp) (PlanGetDiagnostics req)\<rparr> in
      if HasError (Diagnostics resp1) then returns resp1 []
      else
        (case resolveOrganization e (Plan req) (Diagnostics resp1) of
           (plan, ds) \<Rightarrow>
             (let resp2 = resp1\<lparr>Diagnostics := ds\<rparr> in
              if HasError (Diagnostics resp2) then returns resp2 []
              else if \<not> Object_IsNull (DeleteOlderThan plan)
                then createDeleteOlderThanRetentionPolicy e plan resp2
              else if \<not> Object_IsNull (DontDelete plan)
                then createDontDeleteRetentionPolicy e plan resp2
              else returns resp2 [])))"

subsection \<open>Read, Update, Delete\<close>

definition Read :: "env \<Rightarrow> ReadRequest \<Rightarrow> response \<Rightarrow> run" where
  "Read e req resp =
     (let resp1 = resp\<lparr>Diagnostics := Append (Diagnostics resp) (StateGetDiagnostics req)\<rparr>;
          state = PriorState req in
      if HasError (Diagnostics resp1) then returns resp1 []
      else
        (let (call, res) =
               (if String_IsNull (WorkspaceId state)
                then (Organizations_ReadDataRetentionPolicyChoice (ValueString (Organization state)),
                      OrgReadChoice e (ValueString (Organization state)))
                else (Workspaces_ReadDataRetentionPolicyChoice (ValueString (WorkspaceId state)),
                      WsReadChoice e (ValueString (WorkspaceId state))))
         in case res of
              Inl err \<Rightarrow>
                returns (resp1\<lparr>Diagnostics :=
                  AddError (Diagnostics resp1) ''Failed to read data retention policy'' err\<rparr>) [call]
            | Inr policy \<Rightarrow>
                (case modelFromTFEDataRetentionPolicyChoice e state policy of
                   (result, diags) \<Rightarrow>
                     if HasError diags
                     then returns (resp1\<lparr>Diagnostics := Append (Diagnostics resp1) diags\<rparr>) [call]
                     else returns (resp1\<lparr>State := Some result\<rparr>) [call])))"

text \<open>Update reads nothing of its request: it adds one error.\<close>

definition Update :: "env \<Rightarrow> 'req \<Rightarrow> response \<Rightarrow> run" where
  "Update e req resp =
     returns (resp\<lparr>Diagnostics := AddError (Diagnostics resp) ''Update not supported''
       ''The update operation is not supported on this resource. This is a bug in the provider.''\<rparr>) []"

text \<open>The body of Delete is commented out.\<close>

definition Delete :: "env \<Rightarrow> 'req \<Rightarrow> response \<Rightarrow> run" where
  "Delete e req resp = returns resp []"

subsection \<open>ImportState\<close>

text \<open>
  The first occurrence of a non-empty separator in a string: the text before it and
  the text after it (\<^verbatim>\<open>strings.Index\<close> and the two slices \<^verbatim>\<open>genSplit\<close> takes).
\<close>

fun Cut :: "string \<Rightarrow> string \<Rightarrow> (string \<times> string) option" where
  "Cut sep [] = None"
| "Cut sep (c # cs) =
     (if sep \<noteq> [] \<and> take (length sep) (c # cs) = sep
      then Some ([], drop (length sep) (c # cs))
      else (case Cut sep cs of None \<Rightarrow> None | Some (b, a) \<Rightarrow> Some (c # b, a)))"

text \<open>
  \<^verbatim>\<open>strings.SplitN(s, sep, n)\<close> for a non-empty separator and \<open>n \<ge> 0\<close>: nothing for
  \<open>n = 0\<close>, otherwise at most \<open>n\<close> pieces, the last one holding the unsplit rest.
\<close>

fun SplitN :: "string \<Rightarrow> string \<Rightarrow> nat \<Rightarrow> string list" where
  "SplitN s sep 0 = []"
| "SplitN s sep (Suc 0) = [s]"
| "SplitN s sep (Suc (Suc k)) =
     (case Cut sep s of
        None \<Rightarrow> [s]
      | Some (b, a) \<Rightarrow> b # SplitN a sep (Suc k))"

definition ImportState :: "env \<Rightarrow> ImportStateRequest \<Rightarrow> response \<Rightarrow> run" where
  "ImportState e req resp =
     (case SplitN (ImportID req) ''/'' 2 of
        [org, ident] \<Rightarrow>
          (case SetAttribute (State resp) ''organization'' org of
             (d1, st1) \<Rightarrow>
               (case SetAttribute st1 ''id'' ident of
                  (d2, st2) \<Rightarrow>
                    returns \<lparr>State = st2,
                             Diagnostics = Append (Append (Diagnostics resp) d1) d2\<rparr> []))
      | _ \<Rightarrow>
          returns (resp\<lparr>Diagnostics := AddError (Diagnostics resp) ''Error importing variable''
            (''Invalid variable import format: '' @ ImportID req @
             '' (expected <ORGANIZATION>/<KEY ID>)'')\<rparr>) [])"

subsection \<open>Concrete inputs\<close>

text \<open>
  A client whose calls all succeed, with mapping helpers that copy the remote id into
  the model, on a platform with 64-bit \<^verbatim>\<open>int\<close>; and the null response the framework
  hands to Create and ImportState.
\<close>

definition example_env :: env where
  "example_env =
     \<lparr>config_Organization = ''acme'',
      OrgSetDeleteOlder = (\<lambda>a opts. Inr \<lparr>DeleteOlder_ID = ''drp-1'',
         DeleteOlder_DeleteOlderThanNDays = DeleteOlderThanNDays opts\<rparr>),
      WsSetDeleteOlder = (\<lambda>a opts. Inr \<lparr>DeleteOlder_ID = ''drp-2'',
         DeleteOlder_DeleteOlderThanNDays = DeleteOlderThanNDays opts\<rparr>),
      OrgSetDontDelete = (\<lambda>a opts. Inr \<lparr>DontDelete_ID = ''drp-3''\<rparr>),
      WsSetDontDelete = (\<lambda>a opts. Inr \<lparr>DontDelete_ID = ''drp-4''\<rparr>),
      OrgReadChoice = (\<lambda>a. Inr \<lparr>Choice_DeleteOlder = None, Choice_DontDelete = None\<rparr>),
      WsReadChoice = (\<lambda>a. Inr \<lparr>Choice_DeleteOlder = None, Choice_DontDelete = None\<rparr>),
      modelFromTFEDataRetentionPolicyDeleteOlder =
        (\<lambda>plan p. (plan\<lparr>ID := StringValue (DeleteOlder_ID p)\<rparr>, [])),
      modelFromTFEDataRetentionPolicyDontDelete =
        (\<lambda>plan p. plan\<lparr>ID := StringValue (DontDelete_ID p)\<rparr>),
      modelFromTFEDataRetentionPolicyChoice = (\<lambda>state p. (state, [])),
      IntSize = 64\<rparr>"

definition empty_response :: response where
  "empty_response = \<lparr>State = None, Diagnostics = []\<rparr>"

text \<open>The same client with every remote operation failing.\<close>

definition failing_env :: env where
  "failing_env =
     example_env
       \<lparr>OrgSetDeleteOlder := (\<lambda>a opts. Inl ''internal server error''),
        WsSetDeleteOlder := (\<lambda>a opts. Inl ''internal server error''),
        OrgSetDontDelete := (\<lambda>a opts. Inl ''internal server error''),
        WsSetDontDelete := (\<lambda>a opts. Inl ''internal server error''),
        OrgReadChoice := (\<lambda>a. Inl ''resource not found''),
        WsReadChoice := (\<lambda>a. Inl ''resource not found'')\<rparr>"

text \<open>A plan for the workspace ws-123 with neither block set.\<close>

definition neither_request :: CreateRequest where
  "neither_request =
     \<lparr>Plan = emptyModel\<lparr>WorkspaceId := StringValue ''ws-123''\<rparr>, PlanGetDiagnostics = []\<rparr>"

text \<open>A plan for the workspace ws-123 that deletes data older than \<open>q\<close> days.\<close>

definition days_plan :: "rat \<Rightarrow> modelTFEDataRetentionPolicy" where
  "days_plan q =
     emptyModel\<lparr>Organization := StringValue ''ignored'', WorkspaceId := StringValue ''ws-123'',
                 DeleteOlderThan := ObjectValue \<lparr>Days = NumberValue (BigFinite q)\<rparr>\<rparr>"

definition ws_request :: CreateRequest where
  "ws_request = \<lparr>Plan = days_plan 30, PlanGetDiagnostics = []\<rparr>"

text \<open>A plan without workspace and without organization that never deletes.\<close>

definition org_request :: CreateRequest where
  "org_request = \<lparr>Plan = emptyModel\<lparr>DontDelete := ObjectValue ()\<rparr>, PlanGetDiagnostics = []\<rparr>"

text \<open>A plan for the workspace ws-123 that never deletes.\<close>

definition dont_delete_plan :: modelTFEDataRetentionPolicy where
  "dont_delete_plan =
     emptyModel\<lparr>WorkspaceId := StringValue ''ws-123'', DontDelete := ObjectValue ()\<rparr>"

text \<open>The stored state of a policy of the workspace ws-123, and a response holding it.\<close>

definition ws_state :: modelTFEDataRetentionPolicy where
  "ws_state = (days_plan 30)\<lparr>ID := StringValue ''drp-2''\<rparr>"

definition ws_read_request :: ReadRequest where
  "ws_read_request = \<lparr>PriorState = ws_state, StateGetDiagnostics = []\<rparr>"

definition ws_response :: response where
  "ws_response = \<lparr>State = Some ws_state, Diagnostics = []\<rparr>"

section \<open>Properties\<close>

subsection \<open>Diagnostics\<close>

lemma set_Append: "set (Append ds new) = set ds \<union> set new"
  by (induction new arbitrary: ds) auto

lemma HasError_iff: "HasError ds = (\<exists>d\<in>set ds. severity d = SeverityError)"
  by (simp add: HasError_def list_ex_iff)

lemma HasError_Append: "HasError (Append ds new) = (HasError ds \<or> HasError new)"
  by (auto simp: HasError_iff set_Append)

lemma AddError_mem: "ErrorDiagnostic s d \<in> set (AddError ds s d)"
  by (simp add: AddError_def set_Append)

lemma HasError_AddError: "HasError (AddError ds s d)"
  unfolding HasError_iff using AddError_mem [of s d ds] by force

subsection \<open>Update and Delete\<close>

text \<open>
  C4. Update fails unconditionally: whatever the environment and the request are, it
  issues no remote call, leaves the state of the response as it was, and the
  diagnostics of the response hold the error "Update not supported"; the outcome is
  the same for any other environment and request.
\<close>

theorem Update_unsupported:
  "calls (Update e req resp) = []
   \<and> \<not> panicked (Update e req resp)
   \<and> State (response (Update e req resp)) = State resp
   \<and> HasError (Diagnostics (response (Update e req resp)))
   \<and> ErrorDiagnostic ''Update not supported''
        ''The update operation is not supported on this resource. This is a bug in the provider.''
      \<in> set (Diagnostics (response (Update e req resp)))
   \<and> Update e' req' resp = Update e req resp"
  by (simp add: Update_def returns_def HasError_AddError AddError_mem)

text \<open>
  C7. Delete issues no remote call and changes nothing: it returns the response it was
  given, state and diagnostics untouched, without panicking.
\<close>

theorem Delete_no_effect:
  "Delete e req resp = \<lparr>response = resp, calls = [], panicked = False\<rparr>"
  by (simp add: Delete_def returns_def)

subsection \<open>The remote calls of Create\<close>

lemma calls_createDeleteOlderThan:
  "calls (createDeleteOlderThanRetentionPolicy e plan resp) =
     (case DeleteOlderThan plan of
        ObjectValue dot \<Rightarrow>
          (case Days dot of
             NumberValue f \<Rightarrow>
               [if String_IsNull (WorkspaceId plan)
                then Organizations_SetDataRetentionPolicyDeleteOlder (ValueString (Organization plan))
                       \<lparr>DeleteOlderThanNDays = int_of_int64 (IntSize e) (Int64 f)\<rparr>
                else Workspaces_SetDataRetentionPolicyDeleteOlder (ValueString (WorkspaceId plan))
                       \<lparr>DeleteOlderThanNDays = int_of_int64 (IntSize e) (Int64 f)\<rparr>]
           | _ \<Rightarrow> [])
      | _ \<Rightarrow> [])"
  by (simp add: createDeleteOlderThanRetentionPolicy_def returns_def panics_def HasError_def Let_def
      split: tfobject.split tfnumber.split sum.split prod.split)

lemma calls_createDontDelete:
  "calls (createDontDeleteRetentionPolicy e plan resp) =
     (if HasError (fst (As (DeleteOlderThan plan))) then []
      else [if String_IsNull (WorkspaceId plan)
            then Organizations_SetDataRetentionPolicyDontDelete (ValueString (Organization plan))
                   DataRetentionPolicyDontDeleteSetOptions
            else Workspaces_SetDataRetentionPolicyDontDelete (ValueString (WorkspaceId plan))
                   DataRetentionPolicyDontDeleteSetOptions])"
  by (simp add: createDontDeleteRetentionPolicy_def returns_def Let_def
      split: sum.split prod.split)

lemma calls_Create:
  "calls (Create e req resp) =
     (let ds1 = Append (Diagnostics resp) (PlanGetDiagnostics req);
          plan = fst (resolveOrganization e (Plan req) ds1);
          resp2 = resp\<lparr>Diagnostics := snd (resolveOrganization e (Plan req) ds1)\<rparr> in
      if HasError ds1 \<or> HasError (Diagnostics resp2) then []
      else if \<not> Object_IsNull (DeleteOlderThan plan)
        then calls (createDeleteOlderThanRetentionPolicy e plan resp2)
      else if \<not> Object_IsNull (DontDelete plan)
        then calls (createDontDeleteRetentionPolicy e plan resp2)
      else [])"
  by (simp add: Create_def returns_def Let_def split: prod.split)

lemma resolveOrganization_blocks:
  "DeleteOlderThan (fst (resolveOrganization e plan ds)) = DeleteOlderThan plan"
  "DontDelete (fst (resolveOrganization e plan ds)) = DontDelete plan"
  by (simp_all add: resolveOrganization_def split: prod.split)

lemma Schema_validators_neither:
  "Object_IsNull (DeleteOlderThan config) \<Longrightarrow> Object_IsNull (DontDelete config) \<Longrightarrow>
     HasError (Schema_validators config)"
  by (cases "DeleteOlderThan config"; cases "DontDelete config")
     (simp_all add: Schema_validators_def ExactlyOneOf_def HasError_def)

text \<open>
  C1 (as amended). Create issues at most one remote call, so at most one of the two
  "set" operations and never both. When neither block is set in the plan, Create itself
  raises nothing for that case: it issues no call, writes no state, and returns the
  response with only the diagnostics of reading the plan and of resolving the
  organization. The case is rejected beforehand by the schema's ExactlyOneOf
  validators.
\<close>

theorem Create_at_most_one_set_call:
  "length (calls (Create e req resp)) \<le> 1
   \<and> length (filter is_set_delete_older (calls (Create e req resp)))
       + length (filter is_set_dont_delete (calls (Create e req resp))) \<le> 1
   \<and> (Object_IsNull (DeleteOlderThan (Plan req)) \<and> Object_IsNull (DontDelete (Plan req)) \<longrightarrow>
        HasError (Schema_validators (Plan req))
        \<and> Create e req resp =
            returns (resp\<lparr>Diagnostics :=
              (let ds1 = Append (Diagnostics resp) (PlanGetDiagnostics req) in
               if HasError ds1 then ds1 else snd (resolveOrganization e (Plan req) ds1))\<rparr>) [])"
proof -
  have one: "length (calls (Create e req resp)) \<le> 1
   \<and> length (filter is_set_delete_older (calls (Create e req resp)))
       + length (filter is_set_dont_delete (calls (Create e req resp))) \<le> 1"
    by (simp add: calls_Create calls_createDeleteOlderThan calls_createDontDelete Let_def
        split: tfobject.split tfnumber.split)
  have neither: "Create e req resp =
            returns (resp\<lparr>Diagnostics :=
              (let ds1 = Append (Diagnostics resp) (PlanGetDiagnostics req) in
               if HasError ds1 then ds1 else snd (resolveOrganization e (Plan req) ds1))\<rparr>) []"
    if "Object_IsNull (DeleteOlderThan (Plan req))" "Object_IsNull (DontDelete (Plan req))"
    using that
      resolveOrganization_blocks [of e "Plan req" "Append (Diagnostics resp) (PlanGetDiagnostics req)"]
    by (auto simp add: Create_def Let_def returns_def split: prod.split)
  from one neither Schema_validators_neither show ?thesis by blast
qed

text \<open>
  The theorem at the plan with neither block, and at a plan that never deletes, where
  the one call is the organization's "set don't-delete".
\<close>

theorem Create_at_most_one_set_call_witness:
  "Object_IsNull (DeleteOlderThan (Plan neither_request))
   \<and> Object_IsNull (DontDelete (Plan neither_request))
   \<and> HasError (Schema_validators (Plan neither_request))
   \<and> calls (Create example_env neither_request empty_response) = []
   \<and> calls (Create example_env org_request empty_response)
       = [Organizations_SetDataRetentionPolicyDontDelete ''acme'' DataRetentionPolicyDontDeleteSetOptions]
   \<and> length (filter is_set_delete_older (calls (Create example_env org_request empty_response)))
       + length (filter is_set_dont_delete (calls (Create example_env org_request empty_response))) \<le> 1"
proof -
  have n: "Object_IsNull (DeleteOlderThan (Plan neither_request))
           \<and> Object_IsNull (DontDelete (Plan neither_request))"
    by (simp add: neither_request_def emptyModel_def)
  have c: "calls (Create example_env org_request empty_response)
       = [Organizations_SetDataRetentionPolicyDontDelete ''acme'' DataRetentionPolicyDontDeleteSetOptions]"
    by (simp add: calls_Create calls_createDontDelete resolveOrganization_def
        dataOrDefaultOrganization_def org_request_def empty_response_def example_env_def
        emptyModel_def HasError_def Let_def)
  have "\<exists>r. Create example_env neither_request empty_response = returns r []"
    using n Create_at_most_one_set_call [of example_env neither_request empty_response] by blast
  then have a: "calls (Create example_env neither_request empty_response) = []"
    by (auto simp add: returns_def)
  have v: "HasError (Schema_validators (Plan neither_request))"
    using n Create_at_most_one_set_call [of example_env neither_request empty_response] by blast
  have b: "length (filter is_set_delete_older (calls (Create example_env org_request empty_response)))
       + length (filter is_set_dont_delete (calls (Create example_env org_request empty_response))) \<le> 1"
    using Create_at_most_one_set_call [of example_env org_request empty_response] by blast
  from n c a v b show ?thesis by blast
qed

text \<open>
  C1 as stated fails: with neither block in the plan, Create completes without an
  error, without a remote call and without writing state.
\<close>

theorem Create_neither_block_is_silent:
  "Object_IsNull (DeleteOlderThan (Plan neither_request))
   \<and> Object_IsNull (DontDelete (Plan neither_request))
   \<and> Create example_env neither_request empty_response
       = \<lparr>response = \<lparr>State = None, Diagnostics = []\<rparr>, calls = [], panicked = False\<rparr>"
  by (simp add: Create_def resolveOrganization_def neither_request_def empty_response_def
      emptyModel_def HasError_def returns_def)

subsection \<open>Addressing\<close>





subsection \<open>Remote failures\<close>

lemma createDeleteOlderThan_remote_error:
  assumes "c \<in> set (calls (createDeleteOlderThanRetentionPolicy e plan resp))"
    and "call_error e c = Some err"
  shows "State (response (createDeleteOlderThanRetentionPolicy e plan resp)) = State resp
    \<and> ErrorDiagnostic ''Unable to create data retention policy'' err
        \<in> set (Diagnostics (response (createDeleteOlderThanRetentionPolicy e plan resp)))"
  using assms
  by (auto simp add: createDeleteOlderThanRetentionPolicy_def returns_def panics_def Let_def AddError_mem
      split: tfobject.splits tfnumber.splits sum.splits prod.splits if_splits option.splits)

lemma createDontDelete_remote_error:
  assumes "c \<in> set (calls (createDontDeleteRetentionPolicy e plan resp))"
    and "call_error e c = Some err"
  shows "State (response (createDontDeleteRetentionPolicy e plan resp)) = State resp
    \<and> ErrorDiagnostic ''Unable to create data retention policy'' err
        \<in> set (Diagnostics (response (createDontDeleteRetentionPolicy e plan resp)))"
  using assms
  by (auto simp add: createDontDeleteRetentionPolicy_def returns_def Let_def AddError_mem
      split: sum.splits prod.splits if_splits)

lemma Create_remote_error:
  assumes "c \<in> set (calls (Create e req resp))"
    and "call_error e c = Some err"
  shows "State (response (Create e req resp)) = State resp
    \<and> ErrorDiagnostic ''Unable to create data retention policy'' err
        \<in> set (Diagnostics (response (Create e req resp)))"
  using assms
    createDeleteOlderThan_remote_error [of c e]
    createDontDelete_remote_error [of c e]
  by (fastforce simp add: Create_def returns_def Let_def split: prod.splits if_splits)

lemma Read_remote_error:
  assumes "c \<in> set (calls (Read e req resp))"
    and "call_error e c = Some err"
  shows "State (response (Read e req resp)) = State resp
    \<and> ErrorDiagnostic ''Failed to read data retention policy'' err
        \<in> set (Diagnostics (response (Read e req resp)))"
  using assms
  by (auto simp add: Read_def returns_def Let_def AddError_mem
      split: sum.splits prod.splits if_splits)

lemma HasError_ErrorDiagnostic: "ErrorDiagnostic s d \<in> set ds \<Longrightarrow> HasError ds"
  unfolding HasError_iff by force

text \<open>
  C3. When a remote call of Create or of Read returns an error, the state of the
  response is the state it had before, and the diagnostics hold an error carrying the
  message of the remote error.
\<close>

theorem remote_error_persists_no_state:
  "(c \<in> set (calls (Create e creq resp)) \<and> call_error e c = Some err \<longrightarrow>
      State (response (Create e creq resp)) = State resp
      \<and> HasError (Diagnostics (response (Create e creq resp)))
      \<and> ErrorDiagnostic ''Unable to create data retention policy'' err
          \<in> set (Diagnostics (response (Create e creq resp))))
   \<and> (c \<in> set (calls (Read e rreq resp)) \<and> call_error e c = Some err \<longrightarrow>
      State (response (Read e rreq resp)) = State resp
      \<and> HasError (Diagnostics (response (Read e rreq resp)))
      \<and> ErrorDiagnostic ''Failed to read data retention policy'' err
          \<in> set (Diagnostics (response (Read e rreq resp))))"
  using Create_remote_error [of c e creq resp err] Read_remote_error [of c e rreq resp err]
    HasError_ErrorDiagnostic
  by blast

lemma calls_Create_failing:
  "calls (Create failing_env ws_request empty_response) =
     [Workspaces_SetDataRetentionPolicyDeleteOlder ''ws-123'' \<lparr>DeleteOlderThanNDays = 30\<rparr>]"
  by (simp add: calls_Create calls_createDeleteOlderThan resolveOrganization_def
      ws_request_def days_plan_def empty_response_def failing_env_def example_env_def emptyModel_def
      HasError_def Let_def trunc_def MinInt64_def MaxInt64_def int_of_int64_def
      signed_take_bit_int_eq_self)

lemma calls_Read_failing:
  "calls (Read failing_env ws_read_request ws_response) =
     [Workspaces_ReadDataRetentionPolicyChoice ''ws-123'']"
  by (simp add: Read_def returns_def ws_read_request_def ws_state_def days_plan_def
      ws_response_def failing_env_def example_env_def emptyModel_def HasError_def Let_def)

text \<open>
  The theorem with a client whose calls fail: Create leaves the null state, Read leaves
  the stored state of ws-123, and both report the error.
\<close>

theorem remote_error_persists_no_state_witness:
  "call_error failing_env
      (Workspaces_SetDataRetentionPolicyDeleteOlder ''ws-123'' \<lparr>DeleteOlderThanNDays = 30\<rparr>)
     = Some ''internal server error''
   \<and> calls (Create failing_env ws_request empty_response)
       = [Workspaces_SetDataRetentionPolicyDeleteOlder ''ws-123'' \<lparr>DeleteOlderThanNDays = 30\<rparr>]
   \<and> State (response (Create failing_env ws_request empty_response)) = None
   \<and> HasError (Diagnostics (response (Create failing_env ws_request empty_response)))
   \<and> call_error failing_env (Workspaces_ReadDataRetentionPolicyChoice ''ws-123'')
     = Some ''resource not found''
   \<and> calls (Read failing_env ws_read_request ws_response)
       = [Workspaces_ReadDataRetentionPolicyChoice ''ws-123'']
   \<and> State (response (Read failing_env ws_read_request ws_response)) = Some ws_state
   \<and> ErrorDiagnostic ''Failed to read data retention policy'' ''resource not found''
       \<in> set (Diagnostics (response (Read failing_env ws_read_request ws_response)))"
proof -
  let ?c = "Workspaces_SetDataRetentionPolicyDeleteOlder ''ws-123'' \<lparr>DeleteOlderThanNDays = 30\<rparr>"
  let ?r = "Workspaces_ReadDataRetentionPolicyChoice ''ws-123''"
  have ec: "call_error failing_env ?c = Some ''internal server error''"
    by (simp add: failing_env_def example_env_def)
  have er: "call_error failing_env ?r = Some ''resource not found''"
    by (simp add: failing_env_def example_env_def)
  have mc: "?c \<in> set (calls (Create failing_env ws_request empty_response))"
    by (simp add: calls_Create_failing)
  have mr: "?r \<in> set (calls (Read failing_env ws_read_request ws_response))"
    by (simp add: calls_Read_failing)
  have s0: "State empty_response = None" "State ws_response = Some ws_state"
    by (simp_all add: empty_response_def ws_response_def)
  have tc: "State (response (Create failing_env ws_request empty_response)) = State empty_response
      \<and> HasError (Diagnostics (response (Create failing_env ws_request empty_response)))"
    using remote_error_persists_no_state
      [of ?c failing_env ws_request empty_response "''internal server error''" ws_read_request]
      ec mc by blast
  have tr: "State (response (Read failing_env ws_read_request ws_response)) = State ws_response
      \<and> ErrorDiagnostic ''Failed to read data retention policy'' ''resource not found''
          \<in> set (Diagnostics (response (Read failing_env ws_read_request ws_response)))"
    using remote_error_persists_no_state
      [of ?r failing_env ws_request ws_response "''resource not found''" ws_read_request]
      er mr by blast
  from ec er tc tr s0 calls_Create_failing calls_Read_failing show ?thesis by simp
qed

subsection \<open>Resolving the organization in Create\<close>

text \<open>
  C8. Let the workspace id of the plan be null. If the plan declares no organization
  (null or unknown) and the provider has no default organization, Create issues no
  remote call, writes no state and ends with an error, which is the configuration
  error whenever reading the plan raised none before. If the organization resolves,
  Create runs the variant branch on the plan model with the resolved organization
  written into it.
\<close>

theorem Create_resolves_organization:
  assumes "String_IsNull (WorkspaceId (Plan req))"
  shows "((String_IsNull (Organization (Plan req)) \<or> String_IsUnknown (Organization (Plan req)))
          \<and> config_Organization e = [] \<longrightarrow>
            calls (Create e req resp) = []
            \<and> \<not> panicked (Create e req resp)
            \<and> State (response (Create e req resp)) = State resp
            \<and> HasError (Diagnostics (response (Create e req resp)))
            \<and> (\<not> HasError (Append (Diagnostics resp) (PlanGetDiagnostics req)) \<longrightarrow>
                 ConfigurationError \<in> set (Diagnostics (response (Create e req resp)))))
    \<and> (\<not> HasError (Append (Diagnostics resp) (PlanGetDiagnostics req))
        \<and> dataOrDefaultOrganization e (Plan req) = ([], org) \<longrightarrow>
          Create e req resp =
            (let plan = (Plan req)\<lparr>Organization := StringValue org\<rparr>;
                 resp2 = resp\<lparr>Diagnostics := Append (Diagnostics resp) (PlanGetDiagnostics req)\<rparr> in
             if \<not> Object_IsNull (DeleteOlderThan plan)
               then createDeleteOlderThanRetentionPolicy e plan resp2
             else if \<not> Object_IsNull (DontDelete plan)
               then createDontDeleteRetentionPolicy e plan resp2
             else returns resp2 []))"
proof -
  let ?ds1 = "Append (Diagnostics resp) (PlanGetDiagnostics req)"
  have sev: "HasError [ConfigurationError]"
    by (simp add: HasError_def ConfigurationError_def)
  have fail: "calls (Create e req resp) = []
            \<and> \<not> panicked (Create e req resp)
            \<and> State (response (Create e req resp)) = State resp
            \<and> HasError (Diagnostics (response (Create e req resp)))
            \<and> (\<not> HasError ?ds1 \<longrightarrow>
                 ConfigurationError \<in> set (Diagnostics (response (Create e req resp))))"
    if "(String_IsNull (Organization (Plan req)) \<or> String_IsUnknown (Organization (Plan req)))
          \<and> config_Organization e = []"
  proof -
    have d: "dataOrDefaultOrganization e (Plan req) = ([ConfigurationError], [])"
      using that by (cases "Organization (Plan req)") (simp_all add: dataOrDefaultOrganization_def)
    have r: "resolveOrganization e (Plan req) ?ds1
             = ((Plan req)\<lparr>Organization := StringValue []\<rparr>, Append ?ds1 [ConfigurationError])"
      using assms d by (simp add: resolveOrganization_def del: Append.simps)
    have h: "HasError (Append ?ds1 [ConfigurationError])"
      using sev by (simp only: HasError_Append) simp
    have m: "ConfigurationError \<in> set (Append ?ds1 [ConfigurationError])"
      by (simp only: set_Append) simp
    show ?thesis
      using r h m by (simp add: Create_def Let_def returns_def del: Append.simps)
  qed
  have ok: "Create e req resp =
            (let plan = (Plan req)\<lparr>Organization := StringValue org\<rparr>;
                 resp2 = resp\<lparr>Diagnostics := ?ds1\<rparr> in
             if \<not> Object_IsNull (DeleteOlderThan plan)
               then createDeleteOlderThanRetentionPolicy e plan resp2
             else if \<not> Object_IsNull (DontDelete plan)
               then createDontDeleteRetentionPolicy e plan resp2
             else returns resp2 [])"
    if "\<not> HasError ?ds1 \<and> dataOrDefaultOrganization e (Plan req) = ([], org)"
  proof -
    have r: "resolveOrganization e (Plan req) ?ds1
             = ((Plan req)\<lparr>Organization := StringValue org\<rparr>, ?ds1)"
      using assms that by (simp add: resolveOrganization_def)
    show ?thesis
      using r that by (simp add: Create_def Let_def del: Append.simps)
  qed
  from fail ok show ?thesis by blast
qed

text \<open>
  The theorem at a plan without workspace and organization: without a provider default
  it fails before any call; with the default "acme" the don't-delete branch runs on
  the plan with organization "acme" and calls the organization's operation.
\<close>

theorem Create_resolves_organization_witness:
  "String_IsNull (WorkspaceId (Plan org_request))
   \<and> String_IsNull (Organization (Plan org_request))
   \<and> calls (Create (example_env\<lparr>config_Organization := []\<rparr>) org_request empty_response) = []
   \<and> HasError (Diagnostics (response
        (Create (example_env\<lparr>config_Organization := []\<rparr>) org_request empty_response)))
   \<and> ConfigurationError \<in> set (Diagnostics (response
        (Create (example_env\<lparr>config_Organization := []\<rparr>) org_request empty_response)))
   \<and> dataOrDefaultOrganization example_env (Plan org_request) = ([], ''acme'')
   \<and> Create example_env org_request empty_response
       = createDontDeleteRetentionPolicy example_env
           ((Plan org_request)\<lparr>Organization := StringValue ''acme''\<rparr>) empty_response
   \<and> calls (Create example_env org_request empty_response)
       = [Organizations_SetDataRetentionPolicyDontDelete ''acme'' DataRetentionPolicyDontDeleteSetOptions]"
proof -
  let ?e0 = "example_env\<lparr>config_Organization := []\<rparr>"
  have w: "String_IsNull (WorkspaceId (Plan org_request))"
    and o: "String_IsNull (Organization (Plan org_request))"
    and b: "Object_IsNull (DeleteOlderThan (Plan org_request))"
           "\<not> Object_IsNull (DontDelete (Plan org_request))"
    by (simp_all add: org_request_def emptyModel_def)
  have c0: "config_Organization ?e0 = []" by simp
  have n: "\<not> HasError (Append (Diagnostics empty_response) (PlanGetDiagnostics org_request))"
    by (simp add: empty_response_def org_request_def HasError_def)
  have a: "Append (Diagnostics empty_response) (PlanGetDiagnostics org_request) = Diagnostics empty_response"
    by (simp add: empty_response_def org_request_def)
  have d: "dataOrDefaultOrganization example_env (Plan org_request) = ([], ''acme'')"
    by (simp add: dataOrDefaultOrganization_def org_request_def emptyModel_def example_env_def)
  have f: "calls (Create ?e0 org_request empty_response) = []
     \<and> HasError (Diagnostics (response (Create ?e0 org_request empty_response)))
     \<and> ConfigurationError \<in> set (Diagnostics (response (Create ?e0 org_request empty_response)))"
    using Create_resolves_organization [OF w, of ?e0 empty_response] o c0 n by blast
  have g: "Create example_env org_request empty_response
       = createDontDeleteRetentionPolicy example_env
           ((Plan org_request)\<lparr>Organization := StringValue ''acme''\<rparr>) empty_response"
    using Create_resolves_organization [OF w, of example_env empty_response "''acme''"] n d b
    by (simp add: Let_def a)
  have c: "calls (createDontDeleteRetentionPolicy example_env
           ((Plan org_request)\<lparr>Organization := StringValue ''acme''\<rparr>) empty_response)
       = [Organizations_SetDataRetentionPolicyDontDelete ''acme'' DataRetentionPolicyDontDeleteSetOptions]"
    by (simp add: calls_createDontDelete org_request_def emptyModel_def HasError_def)
  from w o f d g c show ?thesis by simp
qed

subsection \<open>The don't-delete branch\<close>

text \<open>
  C9. On the don't-delete branch, two plans that differ only in the
  \<^verbatim>\<open>delete_older_than\<close> block, both decoding without error, issue the same remote call:
  the "set don't-delete" of the scope, with the empty options.
\<close>

theorem dont_delete_ignores_decoded_block:
  assumes "\<not> HasError (fst (As d1))" and "\<not> HasError (fst (As d2))"
  shows "calls (createDontDeleteRetentionPolicy e (plan\<lparr>DeleteOlderThan := d1\<rparr>) resp)
         = calls (createDontDeleteRetentionPolicy e (plan\<lparr>DeleteOlderThan := d2\<rparr>) resp)
    \<and> calls (createDontDeleteRetentionPolicy e (plan\<lparr>DeleteOlderThan := d1\<rparr>) resp)
         = [if String_IsNull (WorkspaceId plan)
            then Organizations_SetDataRetentionPolicyDontDelete (ValueString (Organization plan))
                   DataRetentionPolicyDontDeleteSetOptions
            else Workspaces_SetDataRetentionPolicyDontDelete (ValueString (WorkspaceId plan))
                   DataRetentionPolicyDontDeleteSetOptions]"
  using assms by (simp add: calls_createDontDelete)

text \<open>
  The theorem at a null block and at a block of 30 days, for the workspace ws-123.
\<close>

theorem dont_delete_ignores_decoded_block_witness:
  "\<not> HasError (fst (As ObjectNull))
   \<and> \<not> HasError (fst (As (ObjectValue \<lparr>Days = NumberValue (BigFinite 30)\<rparr>)))
   \<and> calls (createDontDeleteRetentionPolicy example_env
        (dont_delete_plan\<lparr>DeleteOlderThan := ObjectNull\<rparr>) empty_response)
       = [Workspaces_SetDataRetentionPolicyDontDelete ''ws-123'' DataRetentionPolicyDontDeleteSetOptions]
   \<and> calls (createDontDeleteRetentionPolicy example_env
        (dont_delete_plan\<lparr>DeleteOlderThan := ObjectValue \<lparr>Days = NumberValue (BigFinite 30)\<rparr>\<rparr>)
        empty_response)
       = [Workspaces_SetDataRetentionPolicyDontDelete ''ws-123'' DataRetentionPolicyDontDeleteSetOptions]"
proof -
  have h1: "\<not> HasError (fst (As ObjectNull))"
    and h2: "\<not> HasError (fst (As (ObjectValue \<lparr>Days = NumberValue (BigFinite 30)\<rparr>)))"
    by (simp_all add: HasError_def)
  have ws: "String_IsNull (WorkspaceId dont_delete_plan) = False"
    "ValueString (WorkspaceId dont_delete_plan) = ''ws-123''"
    by (simp_all add: dont_delete_plan_def emptyModel_def)
  let ?A = "calls (createDontDeleteRetentionPolicy example_env
        (dont_delete_plan\<lparr>DeleteOlderThan := ObjectNull\<rparr>) empty_response)"
  let ?B = "calls (createDontDeleteRetentionPolicy example_env
        (dont_delete_plan\<lparr>DeleteOlderThan := ObjectValue \<lparr>Days = NumberValue (BigFinite 30)\<rparr>\<rparr>)
        empty_response)"
  let ?L = "[Workspaces_SetDataRetentionPolicyDontDelete ''ws-123'' DataRetentionPolicyDontDeleteSetOptions]"
  note i = dont_delete_ignores_decoded_block [OF h1 h2, of example_env dont_delete_plan empty_response]
  have t1: "?A = ?B" by (rule conjunct1 [OF i])
  have t2: "?A = ?L" unfolding conjunct2 [OF i] by (simp add: ws)
  have t3: "?B = ?L" using t1 t2 by (rule trans [OF sym])
  from h1 h2 t2 t3 show ?thesis by (intro conjI)
qed

subsection \<open>The day count\<close>

lemma int_of_int64_in_range:
  assumes "0 < w" "w \<le> 64" "- (2 ^ (w - 1)) \<le> trunc q" "trunc q < 2 ^ (w - 1)"
  shows "int_of_int64 w (Int64 (BigFinite q)) = trunc q"
proof -
  have "(2::int) ^ (w - 1) \<le> 2 ^ 63"
    using assms(2) by (intro power_increasing) auto
  then have "MinInt64 \<le> trunc q" "trunc q \<le> MaxInt64"
    using assms(3,4) by (simp_all add: MinInt64_def MaxInt64_def)
  then have "Int64 (BigFinite q) = trunc q" by simp
  then show ?thesis
    using assms(3,4) by (simp add: int_of_int64_def signed_take_bit_int_eq_self)
qed

text \<open>
  C6 (as amended). On the delete-older-than branch a known days value is never rejected:
  exactly one "set" call is issued, carrying the conversion of the value. When the
  value truncated toward zero fits the platform's \<^verbatim>\<open>int\<close>, the call carries that
  truncation; beyond the range of an int64 the call carries, with a 64-bit \<^verbatim>\<open>int\<close>,
  the nearest bound of the range instead.
\<close>

theorem days_truncated_within_range:
  assumes "DeleteOlderThan plan = ObjectValue \<lparr>Days = NumberValue f\<rparr>"
  shows "map call_days (calls (createDeleteOlderThanRetentionPolicy e plan resp))
           = [Some (int_of_int64 (IntSize e) (Int64 f))]
    \<and> (f = BigFinite q \<and> 0 < IntSize e \<and> IntSize e \<le> 64
        \<and> - (2 ^ (IntSize e - 1)) \<le> trunc q \<and> trunc q < 2 ^ (IntSize e - 1)
       \<longrightarrow> map call_days (calls (createDeleteOlderThanRetentionPolicy e plan resp)) = [Some (trunc q)])
    \<and> (f = BigFinite q \<and> IntSize e = 64 \<and> 2 ^ 63 \<le> trunc q
       \<longrightarrow> map call_days (calls (createDeleteOlderThanRetentionPolicy e plan resp)) = [Some MaxInt64])
    \<and> (f = BigFinite q \<and> IntSize e = 64 \<and> trunc q < - (2 ^ 63)
       \<longrightarrow> map call_days (calls (createDeleteOlderThanRetentionPolicy e plan resp)) = [Some MinInt64])"
proof -
  have c: "map call_days (calls (createDeleteOlderThanRetentionPolicy e plan resp))
           = [Some (int_of_int64 (IntSize e) (Int64 f))]"
    using assms by (simp add: calls_createDeleteOlderThan)
  have hi: "int_of_int64 64 (Int64 (BigFinite q)) = MaxInt64" if "2 ^ 63 \<le> trunc q"
    using that by (simp add: MinInt64_def MaxInt64_def int_of_int64_def signed_take_bit_int_eq_self)
  have lo: "int_of_int64 64 (Int64 (BigFinite q)) = MinInt64" if "trunc q < - (2 ^ 63)"
    using that by (simp add: MinInt64_def MaxInt64_def int_of_int64_def signed_take_bit_int_eq_self)
  show ?thesis
    using c int_of_int64_in_range [of "IntSize e" q] hi lo by auto
qed

lemma trunc_30: "trunc 30 = 30"
  by (simp add: trunc_def)

lemma trunc_30_7: "trunc (307 / 10) = 30"
  by (simp add: trunc_def floor_eq_iff)

text \<open>
  The theorem at 30.0 and at 30.7: both are passed as 30.
\<close>

theorem days_truncated_within_range_witness:
  "DeleteOlderThan (days_plan 30) = ObjectValue \<lparr>Days = NumberValue (BigFinite 30)\<rparr>
   \<and> map call_days (calls (createDeleteOlderThanRetentionPolicy example_env (days_plan 30) empty_response))
       = [Some 30]
   \<and> DeleteOlderThan (days_plan (307 / 10)) = ObjectValue \<lparr>Days = NumberValue (BigFinite (307 / 10))\<rparr>
   \<and> map call_days (calls (createDeleteOlderThanRetentionPolicy example_env (days_plan (307 / 10)) empty_response))
       = [Some 30]"
proof -
  have w: "IntSize example_env = 64" by (simp add: example_env_def)
  have p: "DeleteOlderThan (days_plan q) = ObjectValue \<lparr>Days = NumberValue (BigFinite q)\<rparr>" for q
    by (simp add: days_plan_def emptyModel_def)
  have h30: "BigFinite 30 = BigFinite 30 \<and> 0 < IntSize example_env \<and> IntSize example_env \<le> 64
      \<and> - (2 ^ (IntSize example_env - 1)) \<le> trunc 30 \<and> trunc 30 < 2 ^ (IntSize example_env - 1)"
    by (simp add: w trunc_30)
  have h307: "BigFinite (307 / 10) = BigFinite (307 / 10) \<and> 0 < IntSize example_env
      \<and> IntSize example_env \<le> 64
      \<and> - (2 ^ (IntSize example_env - 1)) \<le> trunc (307 / 10)
      \<and> trunc (307 / 10) < 2 ^ (IntSize example_env - 1)"
    by (simp add: w trunc_30_7)
  have a: "map call_days (calls (createDeleteOlderThanRetentionPolicy example_env (days_plan 30) empty_response))
       = [Some (trunc 30)]"
    using days_truncated_within_range
        [of "days_plan 30" "BigFinite 30" example_env empty_response 30, OF p] h30
    by blast
  have b: "map call_days (calls (createDeleteOlderThanRetentionPolicy example_env (days_plan (307 / 10)) empty_response))
       = [Some (trunc (307 / 10))]"
    using days_truncated_within_range
        [of "days_plan (307 / 10)" "BigFinite (307 / 10)" example_env empty_response "307 / 10", OF p]
        h307
    by blast
  from p [of 30] p [of "307 / 10"] a b show ?thesis
    by (simp only: trunc_30 trunc_30_7)
qed

text \<open>
  C6 as stated fails: the days value \<open>2^63\<close> is an integer, so rounding toward zero leaves
  it as it is, but the call carries \<open>2^63 - 1\<close>.
\<close>

theorem days_saturate_out_of_range:
  "map call_days (calls (createDeleteOlderThanRetentionPolicy example_env
      (days_plan 9223372036854775808) empty_response)) = [Some 9223372036854775807]
   \<and> trunc 9223372036854775808 = 9223372036854775808"
  by (simp add: calls_createDeleteOlderThan days_plan_def emptyModel_def example_env_def
      trunc_def MinInt64_def MaxInt64_def int_of_int64_def signed_take_bit_int_eq_self)

subsection \<open>Import\<close>

lemma Cut_slash:
  "Cut ''/'' s =
     (if CHR ''/'' \<in> set s
      then Some (takeWhile (\<lambda>c. c \<noteq> CHR ''/'') s, tl (dropWhile (\<lambda>c. c \<noteq> CHR ''/'') s))
      else None)"
  by (induction s) auto

lemma SplitN_slash_2:
  "SplitN s ''/'' 2 =
     (if CHR ''/'' \<in> set s
      then [takeWhile (\<lambda>c. c \<noteq> CHR ''/'') s, tl (dropWhile (\<lambda>c. c \<noteq> CHR ''/'') s)]
      else [s])"
  by (simp add: numeral_2_eq_2 Cut_slash)

lemma ImportState_eq:
  "ImportState e req resp =
     (if CHR ''/'' \<in> set (ImportID req)
      then returns
        \<lparr>State = Some ((case State resp of None \<Rightarrow> emptyModel | Some m \<Rightarrow> m)
           \<lparr>Organization := StringValue (takeWhile (\<lambda>c. c \<noteq> CHR ''/'') (ImportID req)),
            ID := StringValue (tl (dropWhile (\<lambda>c. c \<noteq> CHR ''/'') (ImportID req)))\<rparr>),
         Diagnostics = Diagnostics resp\<rparr> []
      else returns (resp\<lparr>Diagnostics := AddError (Diagnostics resp) ''Error importing variable''
            (''Invalid variable import format: '' @ ImportID req @
             '' (expected <ORGANIZATION>/<KEY ID>)'')\<rparr>) [])"
  by (simp add: ImportState_def SplitN_slash_2 SetAttribute_def Let_def)

text \<open>
  C5. An import identifier with a \<open>/\<close> is split at the first one: the text before it
  becomes the organization, everything after it (further \<open>/\<close> included) the id. An
  identifier without \<open>/\<close> fails with the error "Error importing variable", whose
  detail repeats the identifier and names the expected form
  \<^verbatim>\<open><ORGANIZATION>/<KEY ID>\<close>; the state stays as it was.
\<close>

theorem ImportState_splits_on_first_slash:
  "(CHR ''/'' \<in> set (ImportID req) \<longrightarrow>
      ImportState e req resp =
        returns
          \<lparr>State = Some ((case State resp of None \<Rightarrow> emptyModel | Some m \<Rightarrow> m)
             \<lparr>Organization := StringValue (takeWhile (\<lambda>c. c \<noteq> CHR ''/'') (ImportID req)),
              ID := StringValue (tl (dropWhile (\<lambda>c. c \<noteq> CHR ''/'') (ImportID req)))\<rparr>),
           Diagnostics = Diagnostics resp\<rparr> [])
   \<and> (CHR ''/'' \<notin> set (ImportID req) \<longrightarrow>
      ImportState e req resp =
        returns (resp\<lparr>Diagnostics := AddError (Diagnostics resp) ''Error importing variable''
          (''Invalid variable import format: '' @ ImportID req @
           '' (expected <ORGANIZATION>/<KEY ID>)'')\<rparr>) []
      \<and> HasError (Diagnostics (response (ImportState e req resp)))
      \<and> State (response (ImportState e req resp)) = State resp)"
  by (simp add: ImportState_eq returns_def HasError_AddError)

text \<open>
  The theorem at the three identifiers of the specification.
\<close>

theorem ImportState_splits_on_first_slash_witness:
  "ImportState example_env \<lparr>ImportID = ''acme/pol-abc123''\<rparr> empty_response
     = returns \<lparr>State = Some (emptyModel\<lparr>Organization := StringValue ''acme'',
                                           ID := StringValue ''pol-abc123''\<rparr>),
                Diagnostics = []\<rparr> []
   \<and> ImportState example_env \<lparr>ImportID = ''acme/pol/extra''\<rparr> empty_response
     = returns \<lparr>State = Some (emptyModel\<lparr>Organization := StringValue ''acme'',
                                           ID := StringValue ''pol/extra''\<rparr>),
                Diagnostics = []\<rparr> []
   \<and> ImportState example_env \<lparr>ImportID = ''no-slash-here''\<rparr> empty_response
     = returns \<lparr>State = None,
                Diagnostics = [ErrorDiagnostic ''Error importing variable''
                  ''Invalid variable import format: no-slash-here (expected <ORGANIZATION>/<KEY ID>)'']\<rparr> []"
proof -
  have a: "ImportState example_env \<lparr>ImportID = ''acme/pol-abc123''\<rparr> empty_response
     = returns \<lparr>State = Some (emptyModel\<lparr>Organization := StringValue ''acme'',
                                           ID := StringValue ''pol-abc123''\<rparr>),
                Diagnostics = []\<rparr> []"
    using ImportState_splits_on_first_slash
      [of "\<lparr>ImportID = ''acme/pol-abc123''\<rparr>" example_env empty_response]
    by (simp add: empty_response_def)
  have b: "ImportState example_env \<lparr>ImportID = ''acme/pol/extra''\<rparr> empty_response
     = returns \<lparr>State = Some (emptyModel\<lparr>Organization := StringValue ''acme'',
                                           ID := StringValue ''pol/extra''\<rparr>),
                Diagnostics = []\<rparr> []"
    using ImportState_splits_on_first_slash
      [of "\<lparr>ImportID = ''acme/pol/extra''\<rparr>" example_env empty_response]
    by (simp add: empty_response_def)
  have c: "ImportState example_env \<lparr>ImportID = ''no-slash-here''\<rparr> empty_response
     = returns \<lparr>State = None,
                Diagnostics = [ErrorDiagnostic ''Error importing variable''
                  ''Invalid variable import format: no-slash-here (expected <ORGANIZATION>/<KEY ID>)'']\<rparr> []"
    using ImportState_splits_on_first_slash
      [of "\<lparr>ImportID = ''no-slash-here''\<rparr>" example_env empty_response]
    by (simp add: empty_response_def AddError_def)
  from a b c show ?thesis by (intro conjI)
qed

text \<open>
  C10. An accepted import identifier (one that splits into two parts) writes the
  attributes \<open>organization\<close> and \<open>id\<close> and nothing else: \<open>workspace_id\<close> and the two
  blocks keep the values of the incoming state, no diagnostic is added and no remote
  call is made. From the null state that the framework hands to ImportState, they are
  therefore null, so the imported record has no workspace id.
\<close>

theorem ImportState_writes_organization_and_id_only:
  assumes "length (SplitN (ImportID req) ''/'' 2) = 2"
  shows "State (response (ImportState e req resp))
           = Some ((case State resp of None \<Rightarrow> emptyModel | Some m \<Rightarrow> m)
               \<lparr>Organization := StringValue (SplitN (ImportID req) ''/'' 2 ! 0),
                ID := StringValue (SplitN (ImportID req) ''/'' 2 ! 1)\<rparr>)
    \<and> map_option WorkspaceId (State (response (ImportState e req resp)))
        = Some (WorkspaceId (case State resp of None \<Rightarrow> emptyModel | Some m \<Rightarrow> m))
    \<and> map_option DeleteOlderThan (State (response (ImportState e req resp)))
        = Some (DeleteOlderThan (case State resp of None \<Rightarrow> emptyModel | Some m \<Rightarrow> m))
    \<and> map_option DontDelete (State (response (ImportState e req resp)))
        = Some (DontDelete (case State resp of None \<Rightarrow> emptyModel | Some m \<Rightarrow> m))
    \<and> Diagnostics (response (ImportState e req resp)) = Diagnostics resp
    \<and> calls (ImportState e req resp) = []
    \<and> (State resp = None \<longrightarrow>
         map_option WorkspaceId (State (response (ImportState e req resp))) = Some StringNull
         \<and> map_option DeleteOlderThan (State (response (ImportState e req resp))) = Some ObjectNull
         \<and> map_option DontDelete (State (response (ImportState e req resp))) = Some ObjectNull)"
proof -
  have s: "CHR ''/'' \<in> set (ImportID req)"
    using assms by (simp add: SplitN_slash_2 split: if_splits)
  show ?thesis
    using s by (simp add: ImportState_eq SplitN_slash_2 returns_def emptyModel_def)
qed

text \<open>
  The theorem at two identifiers, from the null state: also a first segment that looks
  like a workspace id ends up as the organization.
\<close>

theorem ImportState_writes_organization_and_id_only_witness:
  "length (SplitN (ImportID \<lparr>ImportID = ''acme/pol-abc123''\<rparr>) ''/'' 2) = 2
   \<and> State (response (ImportState example_env \<lparr>ImportID = ''acme/pol-abc123''\<rparr> empty_response))
       = Some \<lparr>ID = StringValue ''pol-abc123'', Organization = StringValue ''acme'',
               WorkspaceId = StringNull, DeleteOlderThan = ObjectNull, DontDelete = ObjectNull\<rparr>
   \<and> length (SplitN (ImportID \<lparr>ImportID = ''ws-123/pol-abc123''\<rparr>) ''/'' 2) = 2
   \<and> State (response (ImportState example_env \<lparr>ImportID = ''ws-123/pol-abc123''\<rparr> empty_response))
       = Some \<lparr>ID = StringValue ''pol-abc123'', Organization = StringValue ''ws-123'',
               WorkspaceId = StringNull, DeleteOlderThan = ObjectNull, DontDelete = ObjectNull\<rparr>"
proof -
  have l: "length (SplitN (ImportID \<lparr>ImportID = ''acme/pol-abc123''\<rparr>) ''/'' 2) = 2"
    "length (SplitN (ImportID \<lparr>ImportID = ''ws-123/pol-abc123''\<rparr>) ''/'' 2) = 2"
    by (simp_all add: SplitN_slash_2)
  have a: "State (response (ImportState example_env \<lparr>ImportID = ''acme/pol-abc123''\<rparr> empty_response))
       = Some \<lparr>ID = StringValue ''pol-abc123'', Organization = StringValue ''acme'',
               WorkspaceId = StringNull, DeleteOlderThan = ObjectNull, DontDelete = ObjectNull\<rparr>"
    using ImportState_writes_organization_and_id_only [OF l(1), of example_env empty_response]
    by (simp add: SplitN_slash_2 empty_response_def emptyModel_def)
  have b: "State (response (ImportState example_env \<lparr>ImportID = ''ws-123/pol-abc123''\<rparr> empty_response))
       = Some \<lparr>ID = StringValue ''pol-abc123'', Organization = StringValue ''ws-123'',
               WorkspaceId = StringNull, DeleteOlderThan = ObjectNull, DontDelete = ObjectNull\<rparr>"
    using ImportState_writes_organization_and_id_only [OF l(2), of example_env empty_response]
    by (simp add: SplitN_slash_2 empty_response_def emptyModel_def)
  from l a b show ?thesis by (intro conjI)
qed

end
